theory Spec2Isabelle
  imports Complex_Main
begin

section \<open>The traffic signal system of \<^verbatim>\<open>app.py\<close>\<close>

text \<open>
  The class \<^verbatim>\<open>TrafficSignalSystem\<close> keeps one Python list of length four per
  attribute (one slot per lane) and is shared by the scheduler thread
  (\<^verbatim>\<open>manage_signals\<close>), four ingestion threads (\<^verbatim>\<open>detect_vehicles\<close>) and the
  request handlers. The object is a record here, every method takes the record and returns
  the record it leaves behind together with its outcome, and an exception is the outcome
  \<open>Inl\<close>: a Python exception does not undo the assignments made before it.

  What the source gets from outside is a parameter of the model: the wall clock
  (\<^verbatim>\<open>time.time()\<close>, a real number of seconds), the detector's answer for a frame
  (\<^verbatim>\<open>process_frame\<close>), the JPEG encoder (\<^verbatim>\<open>cv2.imencode\<close>), the type \<open>'f\<close>
  of a decoded frame, the type \<open>'n\<close> of a Python number (a float with its rounding, its
  infinities and its NaN, or the int \<open>0\<close>) and \<open>np_mean\<close>, which is \<^verbatim>\<open>np.mean\<close>
  on a list of such numbers.
\<close>

subsection \<open>Exceptions and list indexing\<close>

datatype exn = IndexError | DetectorError

text \<open>
  \<^verbatim>\<open>xs[i]\<close> and \<^verbatim>\<open>xs[i] = v\<close> raise IndexError out of range. Lane
  indices are natural numbers: the threads are started with \<^verbatim>\<open>range(4)\<close> and the
  route's \<^verbatim>\<open><int:lane_idx>\<close> converter only matches unsigned digits.
\<close>

definition getitem :: "'a list \<Rightarrow> nat \<Rightarrow> exn + 'a" where
  "getitem xs i = (if i < length xs then Inr (xs ! i) else Inl IndexError)"

definition setitem :: "'a list \<Rightarrow> nat \<Rightarrow> 'a \<Rightarrow> exn + 'a list" where
  "setitem xs i v = (if i < length xs then Inr (xs[i := v]) else Inl IndexError)"

subsection \<open>The frame source\<close>

text \<open>
  \<^verbatim>\<open>cv2.VideoCapture\<close> is an external library object. It is modelled as the
  decoded frames of the file and a read position: \<^verbatim>\<open>cap.read()\<close> returns
  \<^verbatim>\<open>(True, frame)\<close> and advances, or \<^verbatim>\<open>(False, None)\<close> when no frame is left;
  \<^verbatim>\<open>cap.set(cv2.CAP_PROP_POS_FRAMES, k)\<close> moves the position.
\<close>

record 'f capture =
  cap_frames :: "'f list"
  cap_pos :: nat

definition cap_read :: "'f capture \<Rightarrow> (bool \<times> 'f option) \<times> 'f capture" where
  "cap_read cap =
     (if cap_pos cap < length (cap_frames cap)
      then ((True, Some (cap_frames cap ! cap_pos cap)), cap\<lparr>cap_pos := cap_pos cap + 1\<rparr>)
      else ((False, None), cap))"

definition cap_set_pos_frames :: "nat \<Rightarrow> 'f capture \<Rightarrow> 'f capture" where
  "cap_set_pos_frames k cap = cap\<lparr>cap_pos := k\<rparr>"

subsection \<open>Detector results\<close>

text \<open>
  A detected vehicle is a dictionary of which the source reads only
  \<^verbatim>\<open>v["speed_info"]["kph"]\<close>, a number or \<^verbatim>\<open>None\<close>. The detector's result is a
  dictionary of which the source reads \<^verbatim>\<open>"number_of_vehicles_detected"\<close> and
  \<^verbatim>\<open>"detected_vehicles"\<close>.
\<close>

record 'n vehicle =
  speed_info_kph :: "'n option"

record 'n lane_result =
  number_of_vehicles_detected :: int
  detected_vehicles_of :: "'n vehicle list"

subsection \<open>The system object\<close>

record ('f, 'n) system =
  vehicle_counts :: "int list"
  average_speeds :: "'n list"
  signal_states :: "string list"
  current_green :: nat
  last_signal_change :: real
  frames :: "'f option list"
  min_green_time :: int
  max_green_time :: int
  detected_vehicles :: "'n vehicle list list"
  caps :: "'f capture list"

text \<open>
  \<^verbatim>\<open>__init__\<close>: \<open>cs\<close> are the captures opened from \<^verbatim>\<open>video_paths\<close> and
  \<open>t0\<close> is \<^verbatim>\<open>time.time()\<close> at construction.
\<close>

definition init :: "'f capture list \<Rightarrow> real \<Rightarrow> ('f, 'n::zero) system" where
  "init cs t0 =
     \<lparr>vehicle_counts = replicate 4 0,
      average_speeds = replicate 4 0,
      signal_states = replicate 4 ''red'',
      current_green = 0,
      last_signal_change = t0,
      frames = replicate 4 None,
      min_green_time = 10,
      max_green_time = 60,
      detected_vehicles = replicate 4 [],
      caps = cs\<rparr>"

subsection \<open>The scheduler\<close>

definition get_green_time :: "('f, 'n) system \<Rightarrow> int \<Rightarrow> int" where
  "get_green_time s vehicle_count =
     (if vehicle_count < 5 then min_green_time s
      else if vehicle_count < 15 then (max_green_time s + min_green_time s) div 2
      else max_green_time s)"

text \<open>
  One pass of the body of \<^verbatim>\<open>while True\<close> in \<^verbatim>\<open>manage_signals\<close>, with
  \<open>now\<close> the value of \<^verbatim>\<open>time.time()\<close> read at its start. The three assignments to
  the object are kept in the source's order.
\<close>

definition manage_signals_step :: "real \<Rightarrow> ('f, 'n) system \<Rightarrow> (exn + unit) \<times> ('f, 'n) system" where
  "manage_signals_step now s =
     (case getitem (vehicle_counts s) (current_green s) of
        Inl e \<Rightarrow> (Inl e, s)
      | Inr c \<Rightarrow>
          if now - last_signal_change s > real_of_int (get_green_time s c) then
            (case setitem (signal_states s) (current_green s) ''red'' of
               Inl e \<Rightarrow> (Inl e, s)
             | Inr reds \<Rightarrow>
                 let s1 = s\<lparr>signal_states := reds\<rparr>;
                     s2 = s1\<lparr>current_green := (current_green s1 + 1) mod 4\<rparr>
                 in (case setitem (signal_states s2) (current_green s2) ''green'' of
                       Inl e \<Rightarrow> (Inl e, s2)
                     | Inr greens \<Rightarrow>
                         (Inr (), s2\<lparr>signal_states := greens, last_signal_change := now\<rparr>)))
          else (Inr (), s))"

subsection \<open>The ingestion pipeline\<close>

text \<open>
  The list comprehension of \<^verbatim>\<open>process_lane_result\<close>: the speeds that are not
  \<^verbatim>\<open>None\<close>, in the order of the vehicles.
\<close>

definition speeds_of :: "'n lane_result \<Rightarrow> 'n list" where
  "speeds_of result =
     [the (speed_info_kph v). v \<leftarrow> detected_vehicles_of result, speed_info_kph v \<noteq> None]"

text \<open>
  Statements run one after the other; an exception ends the sequence and leaves the object
  as the statements before it made it.
\<close>

definition and_then ::
  "(exn + unit) \<times> 's \<Rightarrow> ('s \<Rightarrow> (exn + unit) \<times> 's) \<Rightarrow> (exn + unit) \<times> 's" where
  "and_then r k = (case r of (Inl e, s) \<Rightarrow> (Inl e, s) | (Inr u, s) \<Rightarrow> k s)"

text \<open>
  The four assignments that publish one processed frame, each on its own:
  \<^verbatim>\<open>self.frames[lane_idx] = frame\<close> in \<^verbatim>\<open>detect_vehicles\<close> and the three
  assignments of \<^verbatim>\<open>process_lane_result\<close>. \<open>np_mean\<close> is \<^verbatim>\<open>np.mean\<close>, which the
  source calls on a non-empty list only; otherwise the slot gets the int \<open>0\<close>.
\<close>

definition write_frame :: "'f \<Rightarrow> nat \<Rightarrow> ('f, 'n) system \<Rightarrow> (exn + unit) \<times> ('f, 'n) system" where
  "write_frame frame lane_idx s =
     (case setitem (frames s) lane_idx (Some frame) of
        Inl e \<Rightarrow> (Inl e, s)
      | Inr xs \<Rightarrow> (Inr (), s\<lparr>frames := xs\<rparr>))"

definition write_count :: "'n lane_result \<Rightarrow> nat \<Rightarrow> ('f, 'n) system \<Rightarrow> (exn + unit) \<times> ('f, 'n) system" where
  "write_count result lane_idx s =
     (case setitem (vehicle_counts s) lane_idx (number_of_vehicles_detected result) of
        Inl e \<Rightarrow> (Inl e, s)
      | Inr xs \<Rightarrow> (Inr (), s\<lparr>vehicle_counts := xs\<rparr>))"

definition write_speed ::
  "('n list \<Rightarrow> 'n::zero) \<Rightarrow> 'n lane_result \<Rightarrow> nat \<Rightarrow> ('f, 'n) system
   \<Rightarrow> (exn + unit) \<times> ('f, 'n) system" where
  "write_speed np_mean result lane_idx s =
     (let speeds = speeds_of result
      in case setitem (average_speeds s) lane_idx (if speeds \<noteq> [] then np_mean speeds else 0) of
           Inl e \<Rightarrow> (Inl e, s)
         | Inr xs \<Rightarrow> (Inr (), s\<lparr>average_speeds := xs\<rparr>))"

definition write_vehicles :: "'n lane_result \<Rightarrow> nat \<Rightarrow> ('f, 'n) system \<Rightarrow> (exn + unit) \<times> ('f, 'n) system" where
  "write_vehicles result lane_idx s =
     (case setitem (detected_vehicles s) lane_idx (detected_vehicles_of result) of
        Inl e \<Rightarrow> (Inl e, s)
      | Inr xs \<Rightarrow> (Inr (), s\<lparr>detected_vehicles := xs\<rparr>))"

definition process_lane_result ::
  "('n list \<Rightarrow> 'n::zero) \<Rightarrow> 'n lane_result \<Rightarrow> nat \<Rightarrow> ('f, 'n) system
   \<Rightarrow> (exn + unit) \<times> ('f, 'n) system" where
  "process_lane_result np_mean result lane_idx s =
     and_then (and_then (write_count result lane_idx s) (write_speed np_mean result lane_idx))
       (write_vehicles result lane_idx)"

text \<open>
  One pass of the body of \<^verbatim>\<open>while True\<close> in \<^verbatim>\<open>detect_vehicles\<close>.
  \<open>det\<close> is what \<^verbatim>\<open>process_frame(frame, timestamp)\<close> does at this call: it returns
  a result or raises. When \<open>ret\<close> holds, \<open>cap_read\<close> has returned \<open>Some\<close> frame. \<^verbatim>\<open>frame_count\<close> is the loop's local counter, so it is an
  argument and the normal outcome. The capture is an object shared through
  \<^verbatim>\<open>self.caps\<close>: reading it advances it whatever follows. The source has no
  \<^verbatim>\<open>try\<close>: an exception leaves the loop.
\<close>

definition detect_vehicles_step ::
  "('n list \<Rightarrow> 'n::zero) \<Rightarrow> ('f \<Rightarrow> exn + 'n lane_result) \<Rightarrow> nat \<Rightarrow> nat \<Rightarrow> ('f, 'n) system
   \<Rightarrow> (exn + nat) \<times> ('f, 'n) system" where
  "detect_vehicles_step np_mean det lane_idx frame_count s =
     (case getitem (caps s) lane_idx of
        Inl e \<Rightarrow> (Inl e, s)
      | Inr cap \<Rightarrow>
          (case cap_read cap of
             ((ret, frame), cap') \<Rightarrow>
               let s1 = s\<lparr>caps := (caps s)[lane_idx := cap']\<rparr> in
               if ret then
                 (if frame_count mod 3 = 0 then
                    (case (if lane_idx < 4 then det (the frame) else Inl IndexError) of
                       Inl e \<Rightarrow> (Inl e, s1)
                     | Inr result \<Rightarrow>
                         (case and_then (write_frame (the frame) lane_idx s1)
                                 (process_lane_result np_mean result lane_idx) of
                            (Inl e, s2) \<Rightarrow> (Inl e, s2)
                          | (Inr u, s2) \<Rightarrow> (Inr (frame_count + 1), s2)))
                  else (Inr (frame_count + 1), s1))
               else
                 (Inr frame_count,
                  s1\<lparr>caps := (caps s1)[lane_idx := cap_set_pos_frames 0 cap']\<rparr>)))"

text \<open>
  The first \<open>n\<close> passes of the loop. \<open>det k\<close> is the detector's behaviour at the call
  made when the counter is \<open>k\<close> (the tracker keeps state between calls and is given the
  time). The real loop has no exit: \<open>Inr\<close> means that it is still running after \<open>n\<close>
  passes, \<open>Inl\<close> that an exception ended it.
\<close>

fun detect_vehicles ::
  "nat \<Rightarrow> ('n list \<Rightarrow> 'n::zero) \<Rightarrow> (nat \<Rightarrow> 'f \<Rightarrow> exn + 'n lane_result) \<Rightarrow> nat \<Rightarrow> nat \<Rightarrow> ('f, 'n) system
   \<Rightarrow> (exn + nat) \<times> ('f, 'n) system" where
  "detect_vehicles 0 np_mean det lane_idx frame_count s = (Inr frame_count, s)"
| "detect_vehicles (Suc n) np_mean det lane_idx frame_count s =
     (case detect_vehicles_step np_mean (det frame_count) lane_idx frame_count s of
        (Inl e, s') \<Rightarrow> (Inl e, s')
      | (Inr frame_count', s') \<Rightarrow> detect_vehicles n np_mean det lane_idx frame_count' s')"

subsection \<open>The frame stream\<close>

text \<open>
  \<^verbatim>\<open>generate_frame\<close> is a generator. One pass of its loop either raises (the index),
  yields nothing (no frame stored yet) or yields one multipart chunk; \<open>imencode\<close> is
  \<^verbatim>\<open>cv2.imencode('.jpg', frame)\<close> followed by \<^verbatim>\<open>tobytes()\<close>. Frames are values
  here, so \<^verbatim>\<open>.copy()\<close> is the frame itself.
\<close>

definition crlf :: string where
  "crlf = [CHR 0x0D, CHR 0x0A]"

definition chunk_header :: string where
  "chunk_header = ''--frame'' @ crlf @ ''Content-Type: image/jpeg'' @ crlf @ crlf"

definition generate_frame_step ::
  "('f \<Rightarrow> string) \<Rightarrow> nat \<Rightarrow> ('f, 'n) system \<Rightarrow> (exn + string option) \<times> ('f, 'n) system" where
  "generate_frame_step imencode lane_idx s =
     (case getitem (frames s) lane_idx of
        Inl e \<Rightarrow> (Inl e, s)
      | Inr None \<Rightarrow> (Inr None, s)
      | Inr (Some frame) \<Rightarrow> (Inr (Some (chunk_header @ imencode frame @ crlf)), s))"

text \<open>
  Asking the generator for its next element runs the loop until a pass yields or raises.
  \<open>None\<close> is a loop that never does either.
\<close>

partial_function (option) generate_frame_next ::
  "('f \<Rightarrow> string) \<Rightarrow> nat \<Rightarrow> ('f, 'n) system \<Rightarrow> ((exn + string) \<times> ('f, 'n) system) option" where
  "generate_frame_next imencode lane_idx s =
     (case generate_frame_step imencode lane_idx s of
        (Inl e, s') \<Rightarrow> Some (Inl e, s')
      | (Inr None, s') \<Rightarrow> generate_frame_next imencode lane_idx s'
      | (Inr (Some chunk), s') \<Rightarrow> Some (Inr chunk, s'))"

subsection \<open>The system as a whole\<close>

text \<open>
  The threads interleave. A step of the system is one pass of one of the three loops, by
  any thread, at any clock value, with any detector behaviour.
\<close>

inductive sys_step :: "('f, 'n::zero) system \<Rightarrow> ('f, 'n) system \<Rightarrow> bool" where
  scheduler: "manage_signals_step now s = (out, s') \<Longrightarrow> sys_step s s'"
| pipeline: "detect_vehicles_step np_mean det lane_idx frame_count s = (out, s') \<Longrightarrow> sys_step s s'"
| publisher: "generate_frame_step imencode lane_idx s = (out, s') \<Longrightarrow> sys_step s s'"

text \<open>The lists keep the length that \<^verbatim>\<open>__init__\<close> gave them.\<close>

definition well_formed :: "('f, 'n) system \<Rightarrow> bool" where
  "well_formed s \<longleftrightarrow>
     length (vehicle_counts s) = 4 \<and> length (average_speeds s) = 4
   \<and> length (signal_states s) = 4 \<and> length (frames s) = 4
   \<and> length (detected_vehicles s) = 4 \<and> current_green s < 4"


subsection \<open>What a reader can see of a lane\<close>

text \<open>
  The four per-lane slots that the pipeline writes, and the values that one detector result
  for one frame puts there.
\<close>

definition lane_state ::
  "('f, 'n) system \<Rightarrow> nat \<Rightarrow> 'f option \<times> int \<times> 'n \<times> 'n vehicle list" where
  "lane_state s lane_idx =
     (frames s ! lane_idx, vehicle_counts s ! lane_idx, average_speeds s ! lane_idx,
      detected_vehicles s ! lane_idx)"

definition observation_of ::
  "('n list \<Rightarrow> 'n::zero) \<Rightarrow> 'f \<Rightarrow> 'n lane_result \<Rightarrow> 'f option \<times> int \<times> 'n \<times> 'n vehicle list" where
  "observation_of np_mean frame result =
     (Some frame, number_of_vehicles_detected result,
      (if speeds_of result \<noteq> [] then np_mean (speeds_of result) else 0),
      detected_vehicles_of result)"

text \<open>
  Publishing a processed frame is four assignments (lines 75, 58, 60 and 61 of the source)
  with no lock around them, and the other threads run in between. These are the states of
  the object before the first assignment and after each of the four, in order.
\<close>

definition publish_states ::
  "('n list \<Rightarrow> 'n::zero) \<Rightarrow> 'f \<Rightarrow> 'n lane_result \<Rightarrow> nat \<Rightarrow> ('f, 'n) system
   \<Rightarrow> ('f, 'n) system list" where
  "publish_states np_mean frame result lane_idx s =
     (let s1 = snd (write_frame frame lane_idx s);
          s2 = snd (write_count result lane_idx s1);
          s3 = snd (write_speed np_mean result lane_idx s2);
          s4 = snd (write_vehicles result lane_idx s3)
      in [s, s1, s2, s3, s4])"

text \<open>
  The scheduler's picture of the lights: the lane \<open>current_green\<close> shows green and the
  three others show red.
\<close>

definition green_at :: "('f, 'n) system \<Rightarrow> bool" where
  "green_at s \<longleftrightarrow>
     well_formed s \<and> signal_states s = (replicate 4 ''red'')[current_green s := ''green'']"

subsection \<open>Scenarios\<close>

text \<open>
  Concrete objects for the examples: the system once the first phase has ended at second 11,
  detector results with 20 vehicles and with the three vehicles of speeds 30, none and 50, a
  two-frame video, a detector that raises at every call, one that always answers, and a
  system whose lane 0 holds a frame. In the examples the numbers are reals and
  \<^verbatim>\<open>np.mean\<close> is given as the exact mean: the only list it is applied to there is
  30, 50, where the floating-point mean is exactly 40.
\<close>

definition lane1_green :: "(nat, real) system" where
  "lane1_green = snd (manage_signals_step 11 (init [] 0))"

definition twenty_vehicles :: "real lane_result" where
  "twenty_vehicles = \<lparr>number_of_vehicles_detected = 20, detected_vehicles_of = []\<rparr>"

definition three_vehicles :: "real lane_result" where
  "three_vehicles =
     \<lparr>number_of_vehicles_detected = 3,
      detected_vehicles_of =
        [\<lparr>speed_info_kph = Some 30\<rparr>, \<lparr>speed_info_kph = None\<rparr>, \<lparr>speed_info_kph = Some 50\<rparr>]\<rparr>"

definition two_frames :: "nat capture" where
  "two_frames = \<lparr>cap_frames = [1, 2], cap_pos = 0\<rparr>"

definition failing_detector :: "nat \<Rightarrow> nat \<Rightarrow> exn + real lane_result" where
  "failing_detector k frame = Inl DetectorError"

definition fixed_detector :: "nat \<Rightarrow> exn + real lane_result" where
  "fixed_detector frame = Inr three_vehicles"

definition lane0_frame :: "(nat, real) system" where
  "lane0_frame = (init [] 0)\<lparr>frames := [Some 7, None, None, None]\<rparr>"

section \<open>Basic facts\<close>

lemma getitem_in_range: "i < length xs \<Longrightarrow> getitem xs i = Inr (xs ! i)"
  by (simp add: getitem_def)

lemma setitem_in_range: "i < length xs \<Longrightarrow> setitem xs i v = Inr (xs[i := v])"
  by (simp add: setitem_def)

lemma replicate_4: "replicate 4 x = [x, x, x, x]"
  by (simp add: numeral_eq_Suc)

lemma less_4_cases: "i < 4 \<Longrightarrow> i = 0 \<or> i = 1 \<or> i = 2 \<or> i = (3::nat)"
  by arith

lemma next_lane_differs: "(i + 1) mod 4 \<noteq> (i::nat)"
  by presburger

lemma and_then_Inr: "and_then (Inr u, s) k = k s"
  by (simp add: and_then_def)

lemma and_then_Inl: "and_then (Inl e, s) k = (Inl e, s)"
  by (simp add: and_then_def)

lemma snd_and_then:
  "snd (and_then r k) = (case fst r of Inl e \<Rightarrow> snd r | Inr u \<Rightarrow> snd (k (snd r)))"
  by (cases r) (simp add: and_then_def split: sum.splits)

lemma comprehension_as_filter:
  "concat (map (\<lambda>v. if P v then [g v] else []) vs) = map g (filter P vs)"
  by (induction vs) simp_all

lemma init_well_formed: "well_formed (init cs t0)"
  by (simp add: well_formed_def init_def)

subsection \<open>The scheduler on a well-formed object\<close>

lemma manage_signals_step_well_formed:
  assumes "well_formed s"
  shows "manage_signals_step now s =
     (Inr (),
      if now - last_signal_change s
           > real_of_int (get_green_time s (vehicle_counts s ! current_green s))
      then s\<lparr>signal_states :=
               (signal_states s)[current_green s := ''red'',
                                 (current_green s + 1) mod 4 := ''green''],
             current_green := (current_green s + 1) mod 4,
             last_signal_change := now\<rparr>
      else s)"
  using assms
  by (simp add: manage_signals_step_def well_formed_def getitem_in_range setitem_in_range Let_def)

lemma manage_signals_step_current_green:
  "manage_signals_step now s = (out, s') \<Longrightarrow>
   current_green s' = current_green s \<or> current_green s' = (current_green s + 1) mod 4"
  by (auto simp: manage_signals_step_def Let_def split: sum.splits if_splits)

subsection \<open>The pipeline on a well-formed object\<close>

lemma process_lane_result_well_formed:
  assumes "well_formed s" and "lane_idx < 4"
  shows "process_lane_result np_mean result lane_idx s =
     (Inr (),
      s\<lparr>vehicle_counts := (vehicle_counts s)[lane_idx := number_of_vehicles_detected result],
        average_speeds := (average_speeds s)
           [lane_idx := (if speeds_of result \<noteq> [] then np_mean (speeds_of result) else 0)],
        detected_vehicles := (detected_vehicles s)[lane_idx := detected_vehicles_of result]\<rparr>)"
  using assms
  by (simp add: process_lane_result_def write_count_def write_speed_def write_vehicles_def
      and_then_def setitem_in_range well_formed_def Let_def)

lemma publish_well_formed:
  assumes "well_formed s" and "lane_idx < 4"
  shows "and_then (write_frame frame lane_idx s) (process_lane_result np_mean result lane_idx) =
     (Inr (),
      s\<lparr>frames := (frames s)[lane_idx := Some frame],
        vehicle_counts := (vehicle_counts s)[lane_idx := number_of_vehicles_detected result],
        average_speeds := (average_speeds s)
           [lane_idx := (if speeds_of result \<noteq> [] then np_mean (speeds_of result) else 0)],
        detected_vehicles := (detected_vehicles s)[lane_idx := detected_vehicles_of result]\<rparr>)"
proof -
  have w: "write_frame frame lane_idx s = (Inr (), s\<lparr>frames := (frames s)[lane_idx := Some frame]\<rparr>)"
    using assms by (simp add: write_frame_def setitem_in_range well_formed_def)
  have wf: "well_formed (s\<lparr>frames := (frames s)[lane_idx := Some frame]\<rparr>)"
    using assms by (simp add: well_formed_def)
  show ?thesis
    by (simp add: w and_then_Inr process_lane_result_well_formed [OF wf assms(2)])
qed

lemma publish_states_well_formed:
  assumes "well_formed s" and "lane_idx < 4"
  shows "publish_states np_mean frame result lane_idx s =
     [s,
      s\<lparr>frames := (frames s)[lane_idx := Some frame]\<rparr>,
      s\<lparr>frames := (frames s)[lane_idx := Some frame],
        vehicle_counts := (vehicle_counts s)[lane_idx := number_of_vehicles_detected result]\<rparr>,
      s\<lparr>frames := (frames s)[lane_idx := Some frame],
        vehicle_counts := (vehicle_counts s)[lane_idx := number_of_vehicles_detected result],
        average_speeds := (average_speeds s)
           [lane_idx := (if speeds_of result \<noteq> [] then np_mean (speeds_of result) else 0)]\<rparr>,
      s\<lparr>frames := (frames s)[lane_idx := Some frame],
        vehicle_counts := (vehicle_counts s)[lane_idx := number_of_vehicles_detected result],
        average_speeds := (average_speeds s)
           [lane_idx := (if speeds_of result \<noteq> [] then np_mean (speeds_of result) else 0)],
        detected_vehicles := (detected_vehicles s)[lane_idx := detected_vehicles_of result]\<rparr>]"
  using assms
  by (simp add: publish_states_def write_frame_def write_count_def write_speed_def
      write_vehicles_def setitem_in_range well_formed_def Let_def)

lemma write_frame_current_green: "current_green (snd (write_frame f l s)) = current_green s"
  by (simp add: write_frame_def split: sum.splits)

lemma write_count_current_green: "current_green (snd (write_count r l s)) = current_green s"
  by (simp add: write_count_def split: sum.splits)

lemma write_speed_current_green: "current_green (snd (write_speed np_mean r l s)) = current_green s"
  by (simp add: write_speed_def Let_def split: sum.splits)

lemma write_vehicles_current_green: "current_green (snd (write_vehicles r l s)) = current_green s"
  by (simp add: write_vehicles_def split: sum.splits)

lemma process_lane_result_current_green:
  "current_green (snd (process_lane_result np_mean r l s)) = current_green s"
  by (simp add: process_lane_result_def snd_and_then write_count_current_green
      write_speed_current_green write_vehicles_current_green split: sum.splits)

lemma publish_current_green:
  assumes "and_then (write_frame f l s) (process_lane_result np_mean r l) = (out, s')"
  shows "current_green s' = current_green s"
proof -
  have "current_green (snd (and_then (write_frame f l s) (process_lane_result np_mean r l)))
        = current_green s"
    by (simp add: snd_and_then write_frame_current_green process_lane_result_current_green
        split: sum.splits)
  with assms show ?thesis by simp
qed

lemma detect_vehicles_step_current_green:
  "detect_vehicles_step np_mean det l fc s = (out, s') \<Longrightarrow> current_green s' = current_green s"
  by (auto simp: detect_vehicles_step_def Let_def
      split: sum.splits prod.splits if_splits dest: publish_current_green)

lemma detect_vehicles_step_read_failed:
  assumes "lane_idx < length (caps s)"
    and "fst (cap_read (caps s ! lane_idx)) = (False, None)"
  shows "detect_vehicles_step np_mean det lane_idx frame_count s =
     (Inr frame_count,
      s\<lparr>caps := (caps s)[lane_idx := cap_set_pos_frames 0 (caps s ! lane_idx)]\<rparr>)"
proof -
  from assms(2) have "cap_read (caps s ! lane_idx) = ((False, None), caps s ! lane_idx)"
    by (simp add: cap_read_def split: if_splits)
  then show ?thesis
    by (simp add: detect_vehicles_step_def getitem_in_range [OF assms(1)] Let_def)
qed

lemma detect_vehicles_step_skipped:
  assumes "lane_idx < length (caps s)"
    and "fst (cap_read (caps s ! lane_idx)) = (True, Some frame)"
    and "frame_count mod 3 \<noteq> 0"
  shows "detect_vehicles_step np_mean det lane_idx frame_count s =
     (Inr (frame_count + 1), s\<lparr>caps := (caps s)[lane_idx := snd (cap_read (caps s ! lane_idx))]\<rparr>)"
proof -
  obtain r c where rc: "cap_read (caps s ! lane_idx) = (r, c)" by (cases "cap_read (caps s ! lane_idx)")
  with assms(2) have r: "r = (True, Some frame)" by simp
  show ?thesis using assms(3)
    by (simp add: detect_vehicles_step_def getitem_in_range [OF assms(1)] Let_def rc r)
qed

lemma detect_vehicles_step_detector_raises:
  assumes "lane_idx < length (caps s)" and "lane_idx < 4"
    and "fst (cap_read (caps s ! lane_idx)) = (True, Some frame)"
    and "frame_count mod 3 = 0"
    and "det frame = Inl e"
  shows "detect_vehicles_step np_mean det lane_idx frame_count s =
     (Inl e, s\<lparr>caps := (caps s)[lane_idx := snd (cap_read (caps s ! lane_idx))]\<rparr>)"
proof -
  obtain r c where rc: "cap_read (caps s ! lane_idx) = (r, c)" by (cases "cap_read (caps s ! lane_idx)")
  with assms(3) have r: "r = (True, Some frame)" by simp
  show ?thesis using assms(2,4,5)
    by (simp add: detect_vehicles_step_def getitem_in_range [OF assms(1)] Let_def rc r)
qed

lemma detect_vehicles_step_detected:
  assumes "well_formed s" and "lane_idx < length (caps s)" and "lane_idx < 4"
    and "fst (cap_read (caps s ! lane_idx)) = (True, Some frame)"
    and "frame_count mod 3 = 0"
    and "det frame = Inr result"
  shows "detect_vehicles_step np_mean det lane_idx frame_count s =
     (Inr (frame_count + 1),
      s\<lparr>caps := (caps s)[lane_idx := snd (cap_read (caps s ! lane_idx))],
        frames := (frames s)[lane_idx := Some frame],
        vehicle_counts := (vehicle_counts s)[lane_idx := number_of_vehicles_detected result],
        average_speeds := (average_speeds s)
           [lane_idx := (if speeds_of result \<noteq> [] then np_mean (speeds_of result) else 0)],
        detected_vehicles := (detected_vehicles s)[lane_idx := detected_vehicles_of result]\<rparr>)"
proof -
  obtain r c where rc: "cap_read (caps s ! lane_idx) = (r, c)" by (cases "cap_read (caps s ! lane_idx)")
  with assms(4) have r: "r = (True, Some frame)" by simp
  have wf: "well_formed (s\<lparr>caps := (caps s)[lane_idx := c]\<rparr>)"
    using assms(1) by (simp add: well_formed_def)
  show ?thesis using assms(3,5,6)
    by (simp add: detect_vehicles_step_def getitem_in_range [OF assms(2)] Let_def rc r
        publish_well_formed [OF wf assms(3)])
qed

subsection \<open>The frame stream\<close>

lemma generate_frame_step_state: "generate_frame_step enc l s = (out, s') \<Longrightarrow> s' = s"
  by (auto simp: generate_frame_step_def split: sum.splits option.splits)

lemma generate_frame_step_present:
  "lane_idx < length (frames s) \<Longrightarrow> frames s ! lane_idx = Some frame \<Longrightarrow>
   generate_frame_step enc lane_idx s = (Inr (Some (chunk_header @ enc frame @ crlf)), s)"
  by (simp add: generate_frame_step_def getitem_in_range)

lemma generate_frame_step_absent:
  "lane_idx < length (frames s) \<Longrightarrow> frames s ! lane_idx = None \<Longrightarrow>
   generate_frame_step enc lane_idx s = (Inr None, s)"
  by (simp add: generate_frame_step_def getitem_in_range)

lemma generate_frame_step_out_of_range:
  "\<not> lane_idx < length (frames s) \<Longrightarrow> generate_frame_step enc lane_idx s = (Inl IndexError, s)"
  by (simp add: generate_frame_step_def getitem_def)

lemma generate_frame_next_present:
  "lane_idx < length (frames s) \<Longrightarrow> frames s ! lane_idx = Some frame \<Longrightarrow>
   generate_frame_next enc lane_idx s = Some (Inr (chunk_header @ enc frame @ crlf), s)"
  by (subst generate_frame_next.simps) (simp add: generate_frame_step_present)

lemma generate_frame_next_out_of_range:
  "\<not> lane_idx < length (frames s) \<Longrightarrow>
   generate_frame_next enc lane_idx s = Some (Inl IndexError, s)"
  by (subst generate_frame_next.simps) (simp add: generate_frame_step_out_of_range)

text \<open>With no frame stored and nobody writing one, the generator's loop never yields.\<close>

lemma generate_frame_next_absent:
  assumes "lane_idx < length (frames s)" and "frames s ! lane_idx = None"
  shows "generate_frame_next enc lane_idx s = None"
proof (rule ccontr)
  assume "generate_frame_next enc lane_idx s \<noteq> None"
  then obtain y where y: "generate_frame_next enc lane_idx s = Some y" by auto
  have "\<not> (lane_idx < length (frames s) \<and> frames s ! lane_idx = None)"
  proof (rule generate_frame_next.raw_induct
      [where P = "\<lambda>enc lane_idx s y. \<not> (lane_idx < length (frames s) \<and> frames s ! lane_idx = None)",
        OF _ y])
    fix f :: "('a \<Rightarrow> string) \<Rightarrow> nat \<Rightarrow> ('a, 'b) system \<Rightarrow> ((exn + string) \<times> ('a, 'b) system) option"
      and enc' lane' s' y'
    assume ih: "\<And>e l t z. f e l t = Some z \<Longrightarrow> \<not> (l < length (frames t) \<and> frames t ! l = None)"
      and body: "(case generate_frame_step enc' lane' s' of
          (Inl e, s'') \<Rightarrow> Some (Inl e, s'')
        | (Inr None, s'') \<Rightarrow> f enc' lane' s''
        | (Inr (Some chunk), s'') \<Rightarrow> Some (Inr chunk, s'')) = Some y'"
    show "\<not> (lane' < length (frames s') \<and> frames s' ! lane' = None)"
    proof
      assume a: "lane' < length (frames s') \<and> frames s' ! lane' = None"
      then have "generate_frame_step enc' lane' s' = (Inr None, s')"
        by (simp add: generate_frame_step_absent)
      with body have "f enc' lane' s' = Some y'" by simp
      from ih [OF this] a show False by simp
    qed
  qed
  with assms show False by simp
qed

lemma generate_frame_next_state:
  "generate_frame_next enc lane_idx s = Some (out, s') \<Longrightarrow> s' = s"
proof (cases "lane_idx < length (frames s)")
  case False
  assume "generate_frame_next enc lane_idx s = Some (out, s')"
  with generate_frame_next_out_of_range [OF False, of enc] show ?thesis by simp
next
  case True
  assume a: "generate_frame_next enc lane_idx s = Some (out, s')"
  show ?thesis
  proof (cases "frames s ! lane_idx")
    case None
    with a generate_frame_next_absent [OF True None, of enc] show ?thesis by simp
  next
    case (Some frame)
    with a generate_frame_next_present [OF True Some, of enc] show ?thesis by simp
  qed
qed


subsection \<open>The scenarios\<close>

lemma lane1_green_eq:
  "lane1_green = (init [] 0)\<lparr>signal_states := [''red'', ''green'', ''red'', ''red''],
       current_green := 1, last_signal_change := 11\<rparr>"
  unfolding lane1_green_def manage_signals_step_well_formed [OF init_well_formed]
  by (simp add: init_def get_green_time_def replicate_4)

lemma lane1_green_well_formed: "well_formed lane1_green"
  by (simp add: lane1_green_eq well_formed_def init_def)

lemma lane1_updated_eq:
  "snd (process_lane_result (\<lambda>xs. sum_list xs / real (length xs)) twenty_vehicles 1
          lane1_green)
   = lane1_green\<lparr>vehicle_counts := [0, 20, 0, 0]\<rparr>"
proof -
  have "(1::nat) < 4" by simp
  from process_lane_result_well_formed
    [OF lane1_green_well_formed this, where result = twenty_vehicles]
  show ?thesis
    by (simp add: lane1_green_eq init_def replicate_4 twenty_vehicles_def speeds_of_def)
qed


lemma failing_detector_first_pass:
  "detect_vehicles_step (\<lambda>xs. sum_list xs / real (length xs)) (failing_detector 0) 0 0 (init [two_frames] 0)
   = (Inl DetectorError, init [two_frames\<lparr>cap_pos := 1\<rparr>] 0)"
proof -
  have a: "(0::nat) < length (caps (init [two_frames] 0))" by (simp add: init_def)
  have b: "(0::nat) < 4" by simp
  have c: "fst (cap_read (caps (init [two_frames] 0) ! 0)) = (True, Some 1)"
    by (simp add: init_def cap_read_def two_frames_def)
  have d: "(0::nat) mod 3 = 0" by simp
  have e: "failing_detector 0 1 = Inl DetectorError" by (simp add: failing_detector_def)
  from detect_vehicles_step_detector_raises [where det = "failing_detector 0", OF a b c d e]
  show ?thesis by (simp add: init_def cap_read_def two_frames_def)
qed

section \<open>Well-formedness is kept\<close>

text \<open>
  No step changes the length of a list or takes \<open>current_green\<close> out of range, so every
  state that the system reaches from \<open>init\<close> is well formed.
\<close>

lemma manage_signals_step_keeps_well_formed:
  assumes "well_formed s"
  shows "well_formed (snd (manage_signals_step now s))"
  using assms
  by (simp add: manage_signals_step_well_formed [OF assms] well_formed_def)

lemma publish_keeps_well_formed:
  assumes "and_then (write_frame f l s) (process_lane_result np_mean r l) = (out, s')"
    and "well_formed s"
  shows "well_formed s'"
  using assms
  by (auto simp: and_then_def process_lane_result_def write_frame_def write_count_def
      write_speed_def write_vehicles_def setitem_def well_formed_def Let_def
      split: if_splits)

lemma detect_vehicles_step_keeps_well_formed:
  assumes "detect_vehicles_step np_mean det l fc s = (out, s')" and "well_formed s"
  shows "well_formed s'"
proof -
  have c: "well_formed (s\<lparr>caps := cs\<rparr>)" for cs
    using assms(2) by (simp add: well_formed_def)
  from assms show ?thesis
    by (auto simp: detect_vehicles_step_def Let_def c
        split: sum.splits prod.splits if_splits dest: publish_keeps_well_formed [OF _ c])
qed

lemma sys_step_keeps_well_formed: "sys_step s s' \<Longrightarrow> well_formed s \<Longrightarrow> well_formed s'"
proof (induction rule: sys_step.induct)
  case (scheduler now s out s')
  from manage_signals_step_keeps_well_formed [OF scheduler(2), of now] scheduler(1)
  show ?case by simp
next
  case (pipeline det lane_idx frame_count s out s')
  then show ?case by (rule detect_vehicles_step_keeps_well_formed)
next
  case (publisher imencode lane_idx s out s')
  then show ?case by (auto dest: generate_frame_step_state)
qed

section \<open>The signal invariant\<close>

text \<open>
  Once the scheduler has made a transition, exactly the lane \<open>current_green\<close> shows green,
  and every later step of any thread keeps it so.
\<close>

lemma green_at_count:
  assumes "green_at s"
  shows "count_list (signal_states s) ''green'' = 1"
proof -
  have "current_green s < 4" using assms by (simp add: green_at_def well_formed_def)
  then have "current_green s = 0 \<or> current_green s = 1 \<or> current_green s = 2 \<or> current_green s = 3"
    by (rule less_4_cases)
  then show ?thesis using assms
    by (auto simp: green_at_def replicate_4)
qed

lemma first_transition_green_at:
  assumes "now - t0 > 10"
  shows "green_at (snd (manage_signals_step now (init cs t0 :: ('f, 'n::zero) system)))"
proof -
  let ?i = "init cs t0 :: ('f, 'n) system"
  have "manage_signals_step now ?i =
     (Inr (), ?i\<lparr>signal_states := (signal_states ?i)[0 := ''red'', 1 := ''green''],
        current_green := 1, last_signal_change := now\<rparr>)"
    using assms
    by (simp add: manage_signals_step_well_formed [OF init_well_formed])
       (simp add: init_def get_green_time_def)
  then show ?thesis
    by (simp add: green_at_def well_formed_def init_def replicate_4)
qed

lemma list_update_red_green:
  assumes "i < 4"
  shows "((replicate 4 ''red'')[i := ''green''])[i := ''red'', (i + 1) mod 4 := ''green'']
         = (replicate 4 ''red'')[(i + 1) mod 4 := ''green'']"
proof -
  from assms have "i = 0 \<or> i = 1 \<or> i = 2 \<or> i = (3::nat)" by (rule less_4_cases)
  then show ?thesis by (auto simp: replicate_4)
qed

lemma manage_signals_step_green_at:
  assumes "green_at s"
  shows "green_at (snd (manage_signals_step now s))"
proof -
  have wf: "well_formed s" using assms by (simp add: green_at_def)
  have cg: "current_green s < 4" using wf by (simp add: well_formed_def)
  show ?thesis
    using assms cg list_update_red_green [OF cg]
    by (simp add: manage_signals_step_well_formed [OF wf] green_at_def well_formed_def)
qed

lemma publish_green_at:
  assumes "and_then (write_frame f l s) (process_lane_result np_mean r l) = (out, s')" and "green_at s"
  shows "green_at s'"
  using assms
  by (auto simp: and_then_def process_lane_result_def write_frame_def write_count_def
      write_speed_def write_vehicles_def setitem_def green_at_def well_formed_def Let_def
      split: if_splits)

lemma detect_vehicles_step_green_at:
  "detect_vehicles_step np_mean det l fc s = (out, s') \<Longrightarrow> green_at s \<Longrightarrow> green_at s'"
proof -
  assume a: "detect_vehicles_step np_mean det l fc s = (out, s')" and g: "green_at s"
  have c: "green_at (s\<lparr>caps := cs\<rparr>)" for cs using g by (simp add: green_at_def well_formed_def)
  from a g show ?thesis
    by (auto simp: detect_vehicles_step_def Let_def c
        split: sum.splits prod.splits if_splits dest: publish_green_at [OF _ c])
qed

lemma sys_step_green_at: "sys_step s s' \<Longrightarrow> green_at s \<Longrightarrow> green_at s'"
proof (induction rule: sys_step.induct)
  case (scheduler now s out s')
  from manage_signals_step_green_at [OF scheduler(2), of now] scheduler(1) show ?case by simp
next
  case (pipeline det lane_idx frame_count s out s')
  then show ?case by (rule detect_vehicles_step_green_at)
next
  case (publisher imencode lane_idx s out s')
  then show ?case by (auto dest: generate_frame_step_state)
qed

text \<open>
  Claim C1. The claim asks for exactly one green lane at every instant from startup on, the
  initial state being lane 0 green. The object that \<^verbatim>\<open>__init__\<close> builds has
  \<^verbatim>\<open>current_green = 0\<close> and all four \<^verbatim>\<open>signal_states\<close> red: no lane shows
  green until the first transition, which then turns lane 1 green. From that transition on
  the invariant holds (\<open>sys_step_green_at\<close>, \<open>green_at_count\<close>).
\<close>

theorem init_has_no_green_lane:
  "signal_states (init cs t0) = [''red'', ''red'', ''red'', ''red'']
   \<and> count_list (signal_states (init cs t0)) ''green'' = 0
   \<and> current_green (init cs t0) = 0"
  by (simp add: init_def replicate_4)

section \<open>The duration of a green phase\<close>

text \<open>
  Claim C2, as stated, fails. Lane 1 turns green at second 11 with a count of 0, which
  gives a dwell time of 10: the check at second 22 ends the phase. When a detector result
  of 20 vehicles for lane 1 arrives in between, the same check keeps lane 1 green: the
  duration of the phase was not fixed when it began.
\<close>

theorem green_duration_counterexample:
  "current_green lane1_green = 1
   \<and> vehicle_counts lane1_green ! 1 = 0
   \<and> get_green_time lane1_green (vehicle_counts lane1_green ! 1) = 10
   \<and> current_green (snd (manage_signals_step 22 lane1_green)) = 2
   \<and> current_green
        (snd (manage_signals_step 22 (snd (process_lane_result (\<lambda>xs. sum_list xs / real (length xs)) twenty_vehicles 1 lane1_green))))
      = 1"
proof -
  have a: "current_green lane1_green = 1" by (simp add: lane1_green_eq)
  have b: "vehicle_counts lane1_green ! 1 = 0" by (simp add: lane1_green_eq init_def replicate_4)
  have c: "get_green_time lane1_green 0 = 10"
    by (simp add: get_green_time_def lane1_green_eq init_def)
  have d: "current_green (snd (manage_signals_step 22 lane1_green)) = 2"
    unfolding manage_signals_step_well_formed [OF lane1_green_well_formed]
    by (simp add: lane1_green_eq get_green_time_def init_def replicate_4)
  let ?s = "lane1_green\<lparr>vehicle_counts := [0, 20, 0, 0]\<rparr>"
  have wf: "well_formed ?s" by (simp add: lane1_green_eq well_formed_def init_def)
  have f: "current_green (snd (manage_signals_step 22 ?s)) = 1"
    unfolding manage_signals_step_well_formed [OF wf]
    by (simp add: lane1_green_eq get_green_time_def init_def)
  have g: "current_green
        (snd (manage_signals_step 22 (snd (process_lane_result (\<lambda>xs. sum_list xs / real (length xs)) twenty_vehicles 1 lane1_green))))
      = 1"
    unfolding lane1_updated_eq by (rule f)
  from a b c d g show ?thesis by simp
qed

text \<open>
  Claim C2, amended. The scheduler stores no duration. Each check computes the dwell time
  from the count that the green lane has at that check: after a result for the green lane
  has been published during its phase, the next check ends the phase exactly when the time
  since the phase began exceeds the dwell time of the new count.
\<close>

theorem manage_signals_uses_current_count:
  assumes "well_formed s"
    and "process_lane_result np_mean result (current_green s) s = (out1, s1)"
    and "manage_signals_step now s1 = (out2, s2)"
  shows "out1 = Inr () \<and> out2 = Inr ()
       \<and> (current_green s2 = (current_green s + 1) mod 4 \<and> current_green s2 \<noteq> current_green s
            \<longleftrightarrow> now - last_signal_change s
                 > real_of_int (get_green_time s (number_of_vehicles_detected result)))
       \<and> (current_green s2 = current_green s
            \<longleftrightarrow> \<not> now - last_signal_change s
                 > real_of_int (get_green_time s (number_of_vehicles_detected result)))"
proof -
  have cg: "current_green s < 4" using assms(1) by (simp add: well_formed_def)
  have p: "process_lane_result np_mean result (current_green s) s =
     (Inr (),
      s\<lparr>vehicle_counts := (vehicle_counts s)[current_green s := number_of_vehicles_detected result],
        average_speeds := (average_speeds s)
           [current_green s := (if speeds_of result \<noteq> [] then np_mean (speeds_of result) else 0)],
        detected_vehicles := (detected_vehicles s)[current_green s := detected_vehicles_of result]\<rparr>)"
    by (rule process_lane_result_well_formed [OF assms(1) cg])
  from p assms(2) have o1: "out1 = Inr ()" and s1: "s1 = s\<lparr>vehicle_counts := (vehicle_counts s)[current_green s := number_of_vehicles_detected result],
        average_speeds := (average_speeds s)
           [current_green s := (if speeds_of result \<noteq> [] then np_mean (speeds_of result) else 0)],
        detected_vehicles := (detected_vehicles s)[current_green s := detected_vehicles_of result]\<rparr>"
    by simp_all
  have wf1: "well_formed s1" using assms(1) by (simp add: s1 well_formed_def)
  have c: "vehicle_counts s1 ! current_green s = number_of_vehicles_detected result"
    using assms(1) by (simp add: s1 well_formed_def)
  have g: "get_green_time s1 = get_green_time s"
    by (rule ext) (simp add: get_green_time_def s1)
  have l: "last_signal_change s1 = last_signal_change s" "current_green s1 = current_green s"
    by (simp_all add: s1)
  let ?due = "now - last_signal_change s
                > real_of_int (get_green_time s (number_of_vehicles_detected result))"
  have "manage_signals_step now s1 =
     (Inr (),
      if now - last_signal_change s1
           > real_of_int (get_green_time s1 (vehicle_counts s1 ! current_green s1))
      then s1\<lparr>signal_states :=
               (signal_states s1)[current_green s1 := ''red'',
                                 (current_green s1 + 1) mod 4 := ''green''],
             current_green := (current_green s1 + 1) mod 4,
             last_signal_change := now\<rparr>
      else s1)"
    by (rule manage_signals_step_well_formed [OF wf1])
  with assms(3) have o2: "out2 = Inr ()"
    and s2: "current_green s2 = (if ?due then (current_green s + 1) mod 4 else current_green s)"
    by (auto simp: c g l)
  show ?thesis using o1 o2 next_lane_differs [of "current_green s"]
    by (simp add: s2)
qed

theorem manage_signals_uses_current_count_witness:
  "well_formed lane1_green
   \<and> process_lane_result (\<lambda>xs. sum_list xs / real (length xs)) twenty_vehicles (current_green lane1_green) lane1_green
       = (Inr (), lane1_green\<lparr>vehicle_counts := [0, 20, 0, 0]\<rparr>)
   \<and> manage_signals_step 22 (lane1_green\<lparr>vehicle_counts := [0, 20, 0, 0]\<rparr>)
       = (Inr (), lane1_green\<lparr>vehicle_counts := [0, 20, 0, 0]\<rparr>)
   \<and> \<not> 22 - last_signal_change lane1_green
         > real_of_int (get_green_time lane1_green (number_of_vehicles_detected twenty_vehicles))"
proof -
  let ?s1 = "lane1_green\<lparr>vehicle_counts := [0, 20, 0, 0]\<rparr>"
  have cg: "current_green lane1_green < 4" by (simp add: lane1_green_eq)
  have h2: "process_lane_result (\<lambda>xs. sum_list xs / real (length xs)) twenty_vehicles (current_green lane1_green) lane1_green
            = (Inr (), ?s1)"
    unfolding process_lane_result_well_formed [OF lane1_green_well_formed cg]
    by (simp add: lane1_green_eq init_def replicate_4 twenty_vehicles_def speeds_of_def)
  have wf: "well_formed ?s1" by (simp add: lane1_green_eq well_formed_def init_def)
  have h3: "manage_signals_step 22 ?s1 = (Inr (), ?s1)"
    unfolding manage_signals_step_well_formed [OF wf]
    by (simp add: lane1_green_eq get_green_time_def init_def)
  from manage_signals_uses_current_count [OF lane1_green_well_formed h2 h3]
  show ?thesis using lane1_green_well_formed h2 h3 by simp
qed

section \<open>The dwell-time function\<close>

text \<open>
  Claim C3. With the constants that \<^verbatim>\<open>__init__\<close> sets (minimum 10, maximum 60),
  \<open>get_green_time\<close> is the three-tier step function: 10 below a count of 5, the integer
  quotient (10 + 60) div 2 = 35 from 5 up to 14, and 60 from 15 on. It is therefore monotone
  non-decreasing, and its values at 4, 5, 14 and 15 are 10, 35, 35 and 60.
\<close>

theorem get_green_time_three_tier:
  fixes s :: "('f, 'n) system"
  assumes "min_green_time s = 10" and "max_green_time s = 60"
  shows "(\<forall>c. c < 5 \<longrightarrow> get_green_time s c = min_green_time s \<and> get_green_time s c = 10)
       \<and> (\<forall>c. 5 \<le> c \<and> c < 15 \<longrightarrow>
             get_green_time s c = (min_green_time s + max_green_time s) div 2
           \<and> get_green_time s c = 35)
       \<and> (\<forall>c. 15 \<le> c \<longrightarrow> get_green_time s c = max_green_time s \<and> get_green_time s c = 60)
       \<and> (\<forall>c d. c \<le> d \<longrightarrow> get_green_time s c \<le> get_green_time s d)
       \<and> get_green_time s 4 = 10 \<and> get_green_time s 5 = 35
       \<and> get_green_time s 14 = 35 \<and> get_green_time s 15 = 60"
  using assms by (simp add: get_green_time_def)

theorem get_green_time_three_tier_witness:
  "min_green_time (init [] 0 :: (nat, real) system) = 10
   \<and> max_green_time (init [] 0 :: (nat, real) system) = 60
   \<and> get_green_time (init [] 0 :: (nat, real) system) 4 = 10
   \<and> get_green_time (init [] 0 :: (nat, real) system) 5 = 35
   \<and> get_green_time (init [] 0 :: (nat, real) system) 14 = 35
   \<and> get_green_time (init [] 0 :: (nat, real) system) 15 = 60
   \<and> get_green_time (init [] 0 :: (nat, real) system) 3 \<le> get_green_time (init [] 0 :: (nat, real) system) 20"
proof -
  have a: "min_green_time (init [] 0 :: (nat, real) system) = 10" by (simp add: init_def)
  have b: "max_green_time (init [] 0 :: (nat, real) system) = 60" by (simp add: init_def)
  show ?thesis using a b get_green_time_three_tier [OF a b] by simp
qed

section \<open>Round robin\<close>

text \<open>
  Claim C4. Whatever step the system takes (a scheduler check at any time, a pipeline pass
  of any lane with any detector result, a pull of a frame stream), and whatever the vehicle
  counts are, \<open>current_green\<close> afterwards is the lane it was or the next lane modulo 4.
  These three loops are all the code that writes to the object after startup (the request
  handlers only read it), and only the scheduler's assigns \<open>current_green\<close>.
\<close>

theorem round_robin_only:
  "sys_step s s' \<Longrightarrow>
   current_green s' = current_green s \<or> current_green s' = (current_green s + 1) mod 4"
proof (induction rule: sys_step.induct)
  case (scheduler now s out s')
  then show ?case by (rule manage_signals_step_current_green)
next
  case (pipeline det lane_idx frame_count s out s')
  then show ?case by (simp add: detect_vehicles_step_current_green)
next
  case (publisher imencode lane_idx s out s')
  then show ?case by (auto dest: generate_frame_step_state)
qed

theorem round_robin_only_witness:
  "sys_step (init [] 0 :: (nat, real) system) lane1_green
   \<and> current_green (init [] 0 :: (nat, real) system) = 0 \<and> current_green lane1_green = (0 + 1) mod 4"
proof -
  have h: "sys_step (init [] 0 :: (nat, real) system) lane1_green"
    unfolding lane1_green_def
    by (rule sys_step.scheduler [of 11 _ "fst (manage_signals_step 11 (init [] 0))"]) (rule prod.collapse [symmetric])
  from round_robin_only [OF h] h show ?thesis
    by (simp add: lane1_green_eq init_def)
qed

section \<open>Publishing a lane's state\<close>

text \<open>
  Claim C5, as stated, fails. Lane 0 of a fresh system holds no frame, count 0, speed 0 and
  no vehicles. While frame 7 with its three vehicles is being published, the object passes
  through a state where lane 0 holds the new frame with the old count, and through one
  where it holds the new count with the old (empty) vehicle list.
\<close>

theorem publish_torn_counterexample:
  "lane_state (init [] 0 :: (nat, real) system) 0 = (None, 0, 0, [])
   \<and> observation_of (\<lambda>xs. sum_list xs / real (length xs)) (7::nat) three_vehicles = (Some 7, 3, 40, detected_vehicles_of three_vehicles)
   \<and> lane_state (publish_states (\<lambda>xs. sum_list xs / real (length xs)) (7::nat) three_vehicles 0 (init [] 0) ! 1) 0 = (Some 7, 0, 0, [])
   \<and> lane_state (publish_states (\<lambda>xs. sum_list xs / real (length xs)) (7::nat) three_vehicles 0 (init [] 0) ! 2) 0 = (Some 7, 3, 0, [])"
proof -
  have lt: "(0::nat) < 4" by simp
  show ?thesis
    unfolding publish_states_well_formed [OF init_well_formed lt]
    by (simp add: lane_state_def observation_of_def init_def replicate_4 three_vehicles_def
        speeds_of_def)
qed

text \<open>
  Claim C5, amended. The four fields are written by four separate assignments, in the order
  frame, vehicle count, average speed, vehicles, with nothing that keeps a reader out. After
  the fourth assignment the lane holds the four values of the one observation; after the
  first, second and third it holds the new values in the slots written so far and the
  previous values in the others.
\<close>

theorem publish_is_four_writes:
  assumes "well_formed s" and "lane_idx < 4"
  shows "length (publish_states np_mean frame result lane_idx s) = 5
   \<and> publish_states np_mean frame result lane_idx s ! 0 = s
   \<and> lane_state (publish_states np_mean frame result lane_idx s ! 1) lane_idx
       = (Some frame, vehicle_counts s ! lane_idx, average_speeds s ! lane_idx,
          detected_vehicles s ! lane_idx)
   \<and> lane_state (publish_states np_mean frame result lane_idx s ! 2) lane_idx
       = (Some frame, number_of_vehicles_detected result, average_speeds s ! lane_idx,
          detected_vehicles s ! lane_idx)
   \<and> lane_state (publish_states np_mean frame result lane_idx s ! 3) lane_idx
       = (Some frame, number_of_vehicles_detected result,
          (if speeds_of result \<noteq> [] then np_mean (speeds_of result) else 0),
          detected_vehicles s ! lane_idx)
   \<and> lane_state (publish_states np_mean frame result lane_idx s ! 4) lane_idx
       = observation_of np_mean frame result
   \<and> and_then (write_frame frame lane_idx s) (process_lane_result np_mean result lane_idx)
       = (Inr (), publish_states np_mean frame result lane_idx s ! 4)"
  unfolding publish_states_well_formed [OF assms] publish_well_formed [OF assms]
  using assms
  by (simp add: lane_state_def observation_of_def well_formed_def)

theorem publish_is_four_writes_witness:
  "well_formed (init [] 0 :: (nat, real) system) \<and> (0::nat) < 4
   \<and> lane_state (publish_states (\<lambda>xs. sum_list xs / real (length xs)) 7 three_vehicles 0 (init [] 0 :: (nat, real) system) ! 4) 0
       = (Some 7, 3, 40, detected_vehicles_of three_vehicles)"
proof -
  have lt: "(0::nat) < 4" by simp
  have o: "observation_of (\<lambda>xs. sum_list xs / real (length xs)) (7::nat) three_vehicles
           = (Some 7, 3, 40, detected_vehicles_of three_vehicles)"
    by (simp add: observation_of_def three_vehicles_def speeds_of_def)
  have wf: "well_formed (init [] 0 :: (nat, real) system)" by (rule init_well_formed)
  from publish_is_four_writes [OF wf lt, where frame = 7 and result = three_vehicles]
  show ?thesis using wf by (simp add: o)
qed

section \<open>Average speed\<close>

text \<open>
  Claim C6. After \<open>process_lane_result\<close> for a lane, the lane's average speed is the
  arithmetic mean as \<^verbatim>\<open>np.mean\<close> computes it, taken over the speeds of exactly the
  vehicles that report one, in their order, and it is 0 when none does; the lane's vehicle
  count is the result's own count field, whatever the number of vehicles listed or
  reporting. With speeds 30, none, 50 and a count field of 3 the average is the mean of 30
  and 50, which is 40 (the sum 80 and its half are exact in floating point), and the count
  is 3.
\<close>

theorem process_lane_result_average_speed:
  assumes "well_formed s" and "lane_idx < 4"
    and "process_lane_result np_mean result lane_idx s = (out, s')"
  shows "out = Inr ()
   \<and> vehicle_counts s' ! lane_idx = number_of_vehicles_detected result
   \<and> average_speeds s' ! lane_idx =
       (let reporting = filter (\<lambda>v. speed_info_kph v \<noteq> None) (detected_vehicles_of result)
        in if reporting = [] then 0
           else np_mean (map (\<lambda>v. the (speed_info_kph v)) reporting))"
proof -
  have sp: "speeds_of result =
      map (\<lambda>v. the (speed_info_kph v))
        (filter (\<lambda>v. speed_info_kph v \<noteq> None) (detected_vehicles_of result))"
    by (simp add: speeds_of_def comprehension_as_filter)
  from assms(3)
    process_lane_result_well_formed [OF assms(1,2), where result = result and np_mean = np_mean]
  have o: "out = Inr ()" and s': "s' = s\<lparr>vehicle_counts := (vehicle_counts s)[lane_idx := number_of_vehicles_detected result],
        average_speeds := (average_speeds s)
           [lane_idx := (if speeds_of result \<noteq> [] then np_mean (speeds_of result) else 0)],
        detected_vehicles := (detected_vehicles s)[lane_idx := detected_vehicles_of result]\<rparr>"
    by simp_all
  show ?thesis using assms(1,2)
    by (simp add: o s' well_formed_def sp Let_def)
qed

theorem process_lane_result_average_speed_witness:
  "well_formed (init [] 0 :: (nat, real) system) \<and> (0::nat) < 4
   \<and> vehicle_counts
         (snd (process_lane_result (\<lambda>xs. sum_list xs / real (length xs)) three_vehicles 0
                 (init [] 0 :: (nat, real) system))) ! 0 = 3
   \<and> average_speeds
         (snd (process_lane_result (\<lambda>xs. sum_list xs / real (length xs)) three_vehicles 0
                 (init [] 0 :: (nat, real) system))) ! 0 = 40"
proof -
  have lt: "(0::nat) < 4" by simp
  have wf: "well_formed (init [] 0 :: (nat, real) system)" by (rule init_well_formed)
  from process_lane_result_average_speed
    [OF wf lt prod.collapse [symmetric], where result = three_vehicles]
  show ?thesis using wf by (simp add: three_vehicles_def)
qed

section \<open>Faults in the pipeline\<close>

text \<open>
  Claim C7, as stated, fails. The loop has no exception handler: when the detector raises
  on the first frame, the exception leaves \<open>detect_vehicles\<close> and the two passes that
  were still to come never run.
\<close>

theorem detector_exception_counterexample:
  "detect_vehicles 3 (\<lambda>xs. sum_list xs / real (length xs)) failing_detector 0 0 (init [two_frames] 0)
   = (Inl DetectorError, init [two_frames\<lparr>cap_pos := 1\<rparr>] 0)"
  by (simp add: numeral_3_eq_3 failing_detector_first_pass)

text \<open>
  Claim C7, amended. A read that returns no frame is absorbed: the lane's state and the
  frame counter stay as they were, the source is set back to its first frame and the loop
  goes on with the next pass. An exception of the detector is not absorbed: it ends the
  loop of that lane at once, and the lane's state stays as it was before the frame was read
  (only the source has advanced).
\<close>

theorem ingestion_fault_outcomes:
  assumes "lane_idx < length (caps s)" and "lane_idx < 4"
  shows "(fst (cap_read (caps s ! lane_idx)) = (False, None) \<longrightarrow>
            detect_vehicles (Suc n) np_mean det lane_idx frame_count s
            = detect_vehicles n np_mean det lane_idx frame_count
                (s\<lparr>caps := (caps s)[lane_idx := cap_set_pos_frames 0 (caps s ! lane_idx)]\<rparr>))
       \<and> (\<forall>frame e. fst (cap_read (caps s ! lane_idx)) = (True, Some frame)
              \<and> frame_count mod 3 = 0 \<and> det frame_count frame = Inl e \<longrightarrow>
            detect_vehicles (Suc n) np_mean det lane_idx frame_count s
            = (Inl e, s\<lparr>caps := (caps s)[lane_idx := snd (cap_read (caps s ! lane_idx))]\<rparr>))"
proof (intro conjI impI allI)
  assume "fst (cap_read (caps s ! lane_idx)) = (False, None)"
  from detect_vehicles_step_read_failed [OF assms(1) this]
  show "detect_vehicles (Suc n) np_mean det lane_idx frame_count s
        = detect_vehicles n np_mean det lane_idx frame_count
            (s\<lparr>caps := (caps s)[lane_idx := cap_set_pos_frames 0 (caps s ! lane_idx)]\<rparr>)"
    by simp
next
  fix frame e
  assume a: "fst (cap_read (caps s ! lane_idx)) = (True, Some frame)
              \<and> frame_count mod 3 = 0 \<and> det frame_count frame = Inl e"
  then have "detect_vehicles_step np_mean (det frame_count) lane_idx frame_count s =
     (Inl e, s\<lparr>caps := (caps s)[lane_idx := snd (cap_read (caps s ! lane_idx))]\<rparr>)"
    using detect_vehicles_step_detector_raises
      [OF assms, where frame = frame and frame_count = frame_count
        and det = "det frame_count" and e = e and np_mean = np_mean]
    by simp
  then show "detect_vehicles (Suc n) np_mean det lane_idx frame_count s
        = (Inl e, s\<lparr>caps := (caps s)[lane_idx := snd (cap_read (caps s ! lane_idx))]\<rparr>)"
    by simp
qed

theorem ingestion_fault_outcomes_witness:
  "detect_vehicles (Suc 0) (\<lambda>xs. sum_list xs / real (length xs)) failing_detector 0 0 (init [two_frames\<lparr>cap_pos := 2\<rparr>] 0)
     = (Inr 0, init [two_frames] 0)
   \<and> detect_vehicles (Suc 0) (\<lambda>xs. sum_list xs / real (length xs)) failing_detector 0 0 (init [two_frames] 0)
     = (Inl DetectorError, init [two_frames\<lparr>cap_pos := 1\<rparr>] 0)"
proof -
  have lt: "(0::nat) < 4" by simp
  have a1: "(0::nat) < length (caps (init [two_frames\<lparr>cap_pos := 2\<rparr>] 0))"
    by (simp add: init_def)
  have r1: "fst (cap_read (caps (init [two_frames\<lparr>cap_pos := 2\<rparr>] 0) ! 0)) = (False, None)"
    by (simp add: init_def cap_read_def two_frames_def)
  have a2: "(0::nat) < length (caps (init [two_frames] 0))" by (simp add: init_def)
  have r2: "fst (cap_read (caps (init [two_frames] 0) ! 0)) = (True, Some 1)
            \<and> (0::nat) mod 3 = 0 \<and> failing_detector 0 1 = Inl DetectorError"
    by (simp add: init_def cap_read_def two_frames_def failing_detector_def)
  from ingestion_fault_outcomes
    [OF a1 lt, where n = 0 and det = failing_detector and frame_count = 0] r1
  have w1: "detect_vehicles (Suc 0) (\<lambda>xs. sum_list xs / real (length xs)) failing_detector 0 0 (init [two_frames\<lparr>cap_pos := 2\<rparr>] 0)
     = (Inr 0, init [two_frames] 0)"
    by (simp add: init_def cap_set_pos_frames_def two_frames_def)
  from ingestion_fault_outcomes
    [OF a2 lt, where n = 0 and det = failing_detector and frame_count = 0] r2
  have w2: "detect_vehicles (Suc 0) (\<lambda>xs. sum_list xs / real (length xs)) failing_detector 0 0 (init [two_frames] 0)
     = (Inl DetectorError, init [two_frames\<lparr>cap_pos := 1\<rparr>] 0)"
    by (simp add: init_def cap_read_def two_frames_def)
  from w1 w2 show ?thesis by simp
qed

section \<open>The frame stream's elements\<close>




section \<open>End of stream\<close>

text \<open>
  Claim C9, as stated, fails. The first frame of the two-frame video is read successfully
  with the counter at 0, so the detector is called; it raises, the exception leaves the
  pass before \<^verbatim>\<open>frame_count += 1\<close>, and the counter is not incremented.
\<close>

theorem frame_counter_counterexample:
  "cap_read two_frames = ((True, Some 1), two_frames\<lparr>cap_pos := 1\<rparr>)
   \<and> detect_vehicles_step (\<lambda>xs. sum_list xs / real (length xs)) (failing_detector 0) 0 0
         (init [two_frames] 0)
       = (Inl DetectorError, init [two_frames\<lparr>cap_pos := 1\<rparr>] 0)
   \<and> fst (detect_vehicles_step (\<lambda>xs. sum_list xs / real (length xs)) (failing_detector 0) 0 0
              (init [two_frames] 0))
       \<noteq> Inr (0 + 1)"
proof -
  have "cap_read two_frames = ((True, Some 1), two_frames\<lparr>cap_pos := 1\<rparr>)"
    by (simp add: cap_read_def two_frames_def)
  then show ?thesis by (simp add: failing_detector_first_pass)
qed

text \<open>
  Claim C9, amended. When the lane's source has no frame left, the pass sets it back to
  position 0 and the loop goes on with the frame counter unchanged; the next read of a
  source that has frames returns its first frame. When a frame is read, the counter grows
  by one, both when the frame is skipped and when the detector ran and returned its
  result; when the detector raises on the frame, the pass ends with that exception and the
  counter is not incremented.
\<close>

theorem end_of_stream_rewinds:
  assumes "well_formed s" and "lane_idx < length (caps s)" and "lane_idx < 4"
    and "cap = caps s ! lane_idx"
  shows "(length (cap_frames cap) \<le> cap_pos cap \<longrightarrow>
            detect_vehicles_step np_mean det lane_idx frame_count s
            = (Inr frame_count, s\<lparr>caps := (caps s)[lane_idx := cap\<lparr>cap_pos := 0\<rparr>]\<rparr>)
          \<and> (cap_frames cap \<noteq> [] \<longrightarrow>
               cap_read (cap\<lparr>cap_pos := 0\<rparr>)
               = ((True, Some (cap_frames cap ! 0)), cap\<lparr>cap_pos := 1\<rparr>)))
       \<and> (cap_pos cap < length (cap_frames cap)
            \<and> (frame_count mod 3 = 0 \<longrightarrow>
                 (\<exists>result. det (cap_frames cap ! cap_pos cap) = Inr result))
          \<longrightarrow> fst (detect_vehicles_step np_mean det lane_idx frame_count s)
              = Inr (frame_count + 1))
       \<and> (\<forall>e. cap_pos cap < length (cap_frames cap) \<and> frame_count mod 3 = 0
                \<and> det (cap_frames cap ! cap_pos cap) = Inl e
          \<longrightarrow> fst (detect_vehicles_step np_mean det lane_idx frame_count s) = Inl e)"
proof (intro conjI impI allI)
  assume "length (cap_frames cap) \<le> cap_pos cap"
  then have "fst (cap_read (caps s ! lane_idx)) = (False, None)"
    using assms(4) by (simp add: cap_read_def)
  from detect_vehicles_step_read_failed [OF assms(2) this]
  show "detect_vehicles_step np_mean det lane_idx frame_count s
        = (Inr frame_count, s\<lparr>caps := (caps s)[lane_idx := cap\<lparr>cap_pos := 0\<rparr>]\<rparr>)"
    by (simp add: cap_set_pos_frames_def assms(4))
next
  assume "cap_frames cap \<noteq> []"
  then show "cap_read (cap\<lparr>cap_pos := 0\<rparr>)
             = ((True, Some (cap_frames cap ! 0)), cap\<lparr>cap_pos := 1\<rparr>)"
    by (simp add: cap_read_def)
next
  assume a: "cap_pos cap < length (cap_frames cap)
            \<and> (frame_count mod 3 = 0 \<longrightarrow>
                 (\<exists>result. det (cap_frames cap ! cap_pos cap) = Inr result))"
  then have rd: "fst (cap_read (caps s ! lane_idx)) = (True, Some (cap_frames cap ! cap_pos cap))"
    using assms(4) by (simp add: cap_read_def)
  show "fst (detect_vehicles_step np_mean det lane_idx frame_count s) = Inr (frame_count + 1)"
  proof (cases "frame_count mod 3 = 0")
    case True
    with a obtain result where "det (cap_frames cap ! cap_pos cap) = Inr result" by blast
    from detect_vehicles_step_detected [where det = det, OF assms(1,2,3) rd True this]
    show ?thesis by simp
  next
    case False
    from detect_vehicles_step_skipped [OF assms(2) rd False] show ?thesis by simp
  qed
next
  fix e
  assume a: "cap_pos cap < length (cap_frames cap) \<and> frame_count mod 3 = 0
                \<and> det (cap_frames cap ! cap_pos cap) = Inl e"
  then have rd: "fst (cap_read (caps s ! lane_idx)) = (True, Some (cap_frames cap ! cap_pos cap))"
    using assms(4) by (simp add: cap_read_def)
  from a have m: "frame_count mod 3 = 0" and d: "det (cap_frames cap ! cap_pos cap) = Inl e"
    by simp_all
  from detect_vehicles_step_detector_raises [where det = det, OF assms(2,3) rd m d]
  show "fst (detect_vehicles_step np_mean det lane_idx frame_count s) = Inl e" by simp
qed

theorem end_of_stream_rewinds_witness:
  "detect_vehicles_step (\<lambda>xs. sum_list xs / real (length xs)) fixed_detector 0 5
     (init [two_frames\<lparr>cap_pos := 2\<rparr>] 0)
     = (Inr 5, init [two_frames] 0)
   \<and> cap_read two_frames = ((True, Some 1), two_frames\<lparr>cap_pos := 1\<rparr>)
   \<and> fst (detect_vehicles_step (\<lambda>xs. sum_list xs / real (length xs)) fixed_detector 0 5
            (init [two_frames] 0)) = Inr 6
   \<and> fst (detect_vehicles_step (\<lambda>xs. sum_list xs / real (length xs)) fixed_detector 0 6
            (init [two_frames] 0)) = Inr 7
   \<and> fst (detect_vehicles_step (\<lambda>xs. sum_list xs / real (length xs)) (failing_detector 6) 0 6
            (init [two_frames] 0)) = Inl DetectorError"
proof -
  have lt: "(0::nat) < 4" by simp
  let ?m = "\<lambda>xs::real list. sum_list xs / real (length xs)"
  let ?e = "init [two_frames\<lparr>cap_pos := 2\<rparr>] 0 :: (nat, real) system"
  let ?s = "init [two_frames] 0 :: (nat, real) system"
  have a1: "(0::nat) < length (caps ?e)" and a2: "(0::nat) < length (caps ?s)"
    by (simp_all add: init_def)
  have c1: "two_frames\<lparr>cap_pos := 2\<rparr> = caps ?e ! 0" and c2: "two_frames = caps ?s ! 0"
    by (simp_all add: init_def)
  have w1: "detect_vehicles_step ?m fixed_detector 0 5 ?e = (Inr 5, ?s)
            \<and> cap_read two_frames = ((True, Some 1), two_frames\<lparr>cap_pos := 1\<rparr>)"
    using end_of_stream_rewinds
      [OF init_well_formed a1 lt c1, where det = fixed_detector and frame_count = 5
        and np_mean = ?m]
    by (simp add: two_frames_def init_def)
  have w2: "fst (detect_vehicles_step ?m fixed_detector 0 5 ?s) = Inr 6"
    using end_of_stream_rewinds
      [OF init_well_formed a2 lt c2, where det = fixed_detector and frame_count = 5
        and np_mean = ?m]
    by (simp add: two_frames_def)
  have w3: "fst (detect_vehicles_step ?m fixed_detector 0 6 ?s) = Inr 7"
    using end_of_stream_rewinds
      [OF init_well_formed a2 lt c2, where det = fixed_detector and frame_count = 6
        and np_mean = ?m]
    by (simp add: two_frames_def fixed_detector_def)
  have w4: "fst (detect_vehicles_step ?m (failing_detector 6) 0 6 ?s) = Inl DetectorError"
    using end_of_stream_rewinds
      [OF init_well_formed a2 lt c2, where det = "failing_detector 6" and frame_count = 6
        and np_mean = ?m]
    by (simp add: two_frames_def failing_detector_def)
  from w1 w2 w3 w4 show ?thesis by simp
qed

section \<open>Streaming does not write\<close>

text \<open>
  Claim C10. A pass of the generator's loop, and a pull of its next element, leave the
  whole object as it was (so each of its fields); when the lane's slot holds a frame, the
  element is the multipart chunk around the JPEG encoding of that frame.
\<close>

theorem generate_frame_is_read_only:
  "(\<forall>out s'. generate_frame_step imencode lane_idx s = (out, s') \<longrightarrow> s' = s)
   \<and> (\<forall>out s'. generate_frame_next imencode lane_idx s = Some (out, s') \<longrightarrow> s' = s)
   \<and> (\<forall>frame. lane_idx < length (frames s) \<and> frames s ! lane_idx = Some frame \<longrightarrow>
         generate_frame_next imencode lane_idx s
         = Some (Inr (chunk_header @ imencode frame @ crlf), s))"
  by (auto dest: generate_frame_step_state generate_frame_next_state
      simp: generate_frame_next_present)

theorem generate_frame_is_read_only_witness:
  "generate_frame_step (\<lambda>frame. ''jpeg'') 0 lane0_frame
     = (Inr (Some (chunk_header @ ''jpeg'' @ crlf)), lane0_frame)
   \<and> generate_frame_next (\<lambda>frame. ''jpeg'') 0 lane0_frame
     = Some (Inr (chunk_header @ ''jpeg'' @ crlf), lane0_frame)"
proof -
  have a: "(0::nat) < length (frames lane0_frame) \<and> frames lane0_frame ! 0 = Some 7"
    by (simp add: lane0_frame_def init_def)
  have b: "generate_frame_step (\<lambda>frame. ''jpeg'') 0 lane0_frame
     = (Inr (Some (chunk_header @ ''jpeg'' @ crlf)), lane0_frame)"
    using a by (simp add: generate_frame_step_def getitem_def)
  from generate_frame_is_read_only
    [where imencode = "\<lambda>frame. ''jpeg''" and lane_idx = 0 and s = lane0_frame] a b
  show ?thesis by simp
qed

end
